theory Spec2Isabelle
  imports Complex_Main
begin

section \<open>The signature pad of \<open>src/App.js\<close>\<close>

text \<open>
  The component \<open>SignaturePad\<close> keeps five pieces of React state (\<open>isDrawing\<close>,
  \<open>currentUser\<close>, \<open>signatureStatus\<close>, \<open>padActive\<close>, \<open>fileFormat\<close>) and draws on one
  HTML canvas through its 2D context. Its handlers are modelled as functions on a record of
  that state together with the canvas. JavaScript numbers are idealised as reals; the
  backing width and height of a canvas are integers, as the DOM attribute is.

  \<open>canvasRef.current\<close> and \<open>contextRef.current\<close> are assigned while the component
  mounts, before any handler can be called, and are not assigned again. The states below
  are those of the mounted component, where the guards \<open>if (!canvasRef.current) return\<close>
  of \<open>clearCanvas\<close> and \<open>downloadSignature\<close> do not fire.
\<close>

subsection \<open>Values\<close>

datatype user = Admin | Client

datatype status = NotSigned | Requested | Signed

datatype error = TypeError

type_synonym point = "real \<times> real"

type_synonym pixel = "int \<times> int"

text \<open>The two fields of the \<open>DOMRect\<close> of \<open>getBoundingClientRect\<close> that are read.\<close>

record rect =
  rect_left :: real
  rect_top :: real

record touch =
  clientX :: real
  clientY :: real

text \<open>
  A mouse event has no \<open>touches\<close> property and carries its own \<open>clientX\<close>, \<open>clientY\<close>;
  a touch event carries the list \<open>touches\<close> of the contacts that are down.
\<close>

datatype pointer = MouseEvent real real | TouchEvent "touch list"

subsection \<open>The canvas and its 2D context\<close>

text \<open>
  A bitmap is its size and the set of its pixels that are not fully transparent (all ink
  has the one colour \<open>#000\<close>). A subpath is its list of points and whether it is closed.

  The context state that the component uses: the current transformation, which is always
  a uniform scaling (the only transformation applied is \<open>ctx.scale(ratio, ratio)\<close>, to a
  context that has just been reset), and the current path. The pen style (\<open>lineCap\<close>,
  \<open>strokeStyle\<close>, \<open>lineWidth\<close>) is set to the same constants after every reset, and is
  part of the renderer below.
\<close>

record image =
  img_width :: int
  img_height :: int
  img_ink :: "pixel set"

type_synonym subpath = "point list \<times> bool"

record canvas =
  width :: int
  height :: int
  transform :: real
  path :: "subpath list"
  ink :: "pixel set"

definition inBounds :: "canvas \<Rightarrow> pixel \<Rightarrow> bool" where
  "inBounds c p \<longleftrightarrow> 0 \<le> fst p \<and> fst p < width c \<and> 0 \<le> snd p \<and> snd p < height c"

text \<open>A canvas whose ink lies within its bitmap.\<close>

definition clipped :: "canvas \<Rightarrow> bool" where
  "clipped c \<longleftrightarrow> (\<forall>p\<in>ink c. inBounds c p)"

text \<open>
  A canvas element without \<open>width\<close> and \<open>height\<close> attributes, as the one of the JSX, is
  300 by 150, transparent, with a default context.
\<close>

definition newCanvas :: canvas where
  "newCanvas = \<lparr>width = 300, height = 150, transform = 1, path = [], ink = {}\<rparr>"

text \<open>
  Assigning \<open>canvas.width\<close> or \<open>canvas.height\<close> clears the bitmap to transparent and
  resets the context to its default state: identity transformation, empty path.
\<close>

definition set_width :: "int \<Rightarrow> canvas \<Rightarrow> canvas" where
  "set_width w c = c\<lparr>width := w, transform := 1, path := [], ink := {}\<rparr>"

definition set_height :: "int \<Rightarrow> canvas \<Rightarrow> canvas" where
  "set_height h c = c\<lparr>height := h, transform := 1, path := [], ink := {}\<rparr>"

definition ctx_scale :: "real \<Rightarrow> canvas \<Rightarrow> canvas" where
  "ctx_scale r c = c\<lparr>transform := transform c * r\<rparr>"

definition beginPath :: "canvas \<Rightarrow> canvas" where
  "beginPath c = c\<lparr>path := []\<rparr>"

definition moveTo :: "point \<Rightarrow> canvas \<Rightarrow> canvas" where
  "moveTo p c = c\<lparr>path := path c @ [([p], False)]\<rparr>"

text \<open>\<open>lineTo\<close> on a path without subpaths only starts a subpath at the point.\<close>

definition lineTo :: "point \<Rightarrow> canvas \<Rightarrow> canvas" where
  "lineTo p c =
     (if path c = [] then moveTo p c
      else c\<lparr>path := butlast (path c) @ [(fst (last (path c)) @ [p], snd (last (path c)))]\<rparr>)"

text \<open>
  \<open>closePath\<close> does nothing on a path without subpaths; otherwise it marks the last
  subpath closed and starts a new subpath at that subpath's first point.
\<close>

definition closePath :: "canvas \<Rightarrow> canvas" where
  "closePath c =
     (if path c = [] then c
      else c\<lparr>path := butlast (path c) @
              [(fst (last (path c)), True), (take 1 (fst (last (path c))), False)]\<rparr>)"

text \<open>
  \<open>stroke\<close> paints the current path and \<open>drawImage\<close> paints an image. Which pixels a
  stroked path covers, and which pixels an image covers that is drawn scaled, is decided
  by the browser's renderer, with antialiasing and smoothing. The renderer is a parameter
  \<open>R\<close> of the model: one function from the scale factor and the path to a set of pixels,
  and one from the scale factor, the corner and the image to a set of pixels. Painting is
  clipped to the bitmap.
\<close>

record renderer =
  strokePixels :: "real \<Rightarrow> subpath list \<Rightarrow> pixel set"
  imagePixels :: "real \<Rightarrow> real \<Rightarrow> real \<Rightarrow> image \<Rightarrow> pixel set"

definition stroke :: "renderer \<Rightarrow> canvas \<Rightarrow> canvas" where
  "stroke R c =
     c\<lparr>ink := ink c \<union> Set.filter (inBounds c) (strokePixels R (transform c) (path c))\<rparr>"

text \<open>
  \<open>clearRect(x, y, w, h)\<close> makes transparent the rectangle with these corners in the
  coordinates of the current transformation, that is, the device rectangle from
  \<open>(x * k, y * k)\<close> to \<open>((x + w) * k, (y + h) * k)\<close> for scale factor \<open>k\<close>. A pixel
  \<open>(i, j)\<close> is the unit square from \<open>(i, j)\<close> to \<open>(i + 1, j + 1)\<close>; the pixels that lie
  in the rectangle lose their ink.
\<close>

definition inRect :: "real \<Rightarrow> real \<Rightarrow> real \<Rightarrow> real \<Rightarrow> real \<Rightarrow> pixel \<Rightarrow> bool" where
  "inRect k x y w h p \<longleftrightarrow>
     x * k \<le> of_int (fst p) \<and> of_int (fst p) + 1 \<le> (x + w) * k \<and>
     y * k \<le> of_int (snd p) \<and> of_int (snd p) + 1 \<le> (y + h) * k"

definition clearRect :: "real \<Rightarrow> real \<Rightarrow> real \<Rightarrow> real \<Rightarrow> canvas \<Rightarrow> canvas" where
  "clearRect x y w h c = c\<lparr>ink := Set.filter (\<lambda>p. \<not> inRect (transform c) x y w h p) (ink c)\<rparr>"

text \<open>
  \<open>drawImage(img, dx, dy)\<close> paints the image at its natural size with its corner at
  \<open>(dx, dy)\<close>, in the coordinates of the current transformation, over what is there
  (transparent pixels of the image change nothing). With the identity transformation and
  the corner at the origin the image is copied pixel for pixel; otherwise the image is
  resampled, and the pixels it inks are the renderer's.
\<close>

definition drawImage :: "renderer \<Rightarrow> image \<Rightarrow> real \<Rightarrow> real \<Rightarrow> canvas \<Rightarrow> canvas" where
  "drawImage R img dx dy c =
     c\<lparr>ink := ink c \<union> Set.filter (inBounds c)
            (if transform c = 1 \<and> dx = 0 \<and> dy = 0 then img_ink img
             else imagePixels R (transform c) dx dy img)\<rparr>"

text \<open>
  \<open>toDataURL(type)\<close> encodes the bitmap. A bitmap without pixels, of width or height
  zero, gives the string \<open>data:,\<close>, which is no image. Otherwise a type that the browser
  cannot encode is replaced by PNG, and so is a missing one; the encoded bytes are
  determined by the type used and the bitmap, and are modelled as that pair. Only PNG
  must be supported; JPEG and WebP usually are. Decoding a PNG gives back the bitmap;
  \<open>data:,\<close> cannot be decoded, and an image with this source never fires \<open>load\<close>.
\<close>

datatype dataURL = DataURL string image | NoData

definition bitmap :: "canvas \<Rightarrow> image" where
  "bitmap c = \<lparr>img_width = width c, img_height = height c, img_ink = Set.filter (inBounds c) (ink c)\<rparr>"

definition encodable :: "string list" where
  "encodable = [''image/png'', ''image/jpeg'', ''image/webp'']"

definition toDataURL :: "string option \<Rightarrow> canvas \<Rightarrow> dataURL" where
  "toDataURL ty c =
     (if width c \<le> 0 \<or> height c \<le> 0 then NoData
      else case ty of
             None \<Rightarrow> DataURL ''image/png'' (bitmap c)
           | Some t \<Rightarrow> DataURL (if t \<in> set encodable then t else ''image/png'') (bitmap c))"

fun decode :: "dataURL \<Rightarrow> image option" where
  "decode (DataURL t img) = Some img"
| "decode NoData = None"

subsection \<open>A renderer for concrete runs\<close>

text \<open>
  A small renderer that makes concrete runs computable. Of a stroked path it inks the
  pixels that hold the two end points of every segment of non-zero length; segments of
  length zero and subpaths of a single point are not painted. Of a scaled image it inks
  the pixels under each scaled image pixel, without smoothing. It is not a browser's
  renderer, which inks further pixels around a segment and, at a scale below 1, may leave
  the pixel of an end point without ink. At scale 1 a segment between pixel centres
  covers the pixels of its end points fully under a pen of width 2.
\<close>

definition vertexPixel :: "real \<Rightarrow> point \<Rightarrow> pixel" where
  "vertexPixel k p = (\<lfloor>fst p * k\<rfloor>, \<lfloor>snd p * k\<rfloor>)"

fun segments :: "point list \<Rightarrow> (point \<times> point) list" where
  "segments (p # q # ps) = (p, q) # segments (q # ps)"
| "segments ps = []"

definition subpathSegments :: "subpath \<Rightarrow> (point \<times> point) list" where
  "subpathSegments sp =
     segments (fst sp) @ (if snd sp \<and> fst sp \<noteq> [] then [(last (fst sp), hd (fst sp))] else [])"

definition vertexPixels :: "real \<Rightarrow> subpath list \<Rightarrow> pixel set" where
  "vertexPixels k sps =
     set (concat (map (\<lambda>pq. if fst pq = snd pq then []
                            else [vertexPixel k (fst pq), vertexPixel k (snd pq)])
                      (concat (map subpathSegments sps))))"

definition footprint :: "real \<Rightarrow> real \<Rightarrow> real \<Rightarrow> pixel \<Rightarrow> pixel set" where
  "footprint k dx dy q =
     {\<lfloor>(dx + of_int (fst q)) * k\<rfloor> .. \<lceil>(dx + of_int (fst q) + 1) * k\<rceil> - 1} \<times>
     {\<lfloor>(dy + of_int (snd q)) * k\<rfloor> .. \<lceil>(dy + of_int (snd q) + 1) * k\<rceil> - 1}"

definition blockPixels :: "real \<Rightarrow> real \<Rightarrow> real \<Rightarrow> image \<Rightarrow> pixel set" where
  "blockPixels k dx dy img = (\<Union>q\<in>img_ink img. footprint k dx dy q)"

definition vertexRaster :: renderer where
  "vertexRaster = \<lparr>strokePixels = vertexPixels, imagePixels = blockPixels\<rparr>"

subsection \<open>The component\<close>

text \<open>
  \<open>loading\<close> holds the \<open>Image\<close> objects that \<open>handleResize\<close> has created and whose
  \<open>load\<close> event has not fired yet.
\<close>

record state =
  isDrawing :: bool
  currentUser :: user
  signatureStatus :: status
  padActive :: bool
  fileFormat :: string
  canvas :: canvas
  loading :: "image list"

text \<open>
  \<open>setupCanvas\<close>, with what it reads from the environment as arguments: the device pixel
  ratio (\<open>window.devicePixelRatio || 1\<close>: a zero ratio counts as 1) and the layout size
  \<open>offsetWidth\<close>, \<open>offsetHeight\<close>. The products are truncated to integers by the
  assignment to \<open>canvas.width\<close>.
\<close>

definition setupCanvas :: "real \<Rightarrow> int \<Rightarrow> int \<Rightarrow> canvas \<Rightarrow> canvas" where
  "setupCanvas devicePixelRatio offsetWidth offsetHeight c =
     (let ratio = (if devicePixelRatio = 0 then 1 else devicePixelRatio);
          c1 = set_width \<lfloor>of_int offsetWidth * ratio\<rfloor> c;
          c2 = set_height \<lfloor>of_int offsetHeight * ratio\<rfloor> c1
      in ctx_scale ratio c2)"

text \<open>The state after mounting: the \<open>useState\<close> initial values and the layout effect.\<close>

definition mount :: "real \<Rightarrow> int \<Rightarrow> int \<Rightarrow> state" where
  "mount devicePixelRatio offsetWidth offsetHeight =
     \<lparr>isDrawing = False, currentUser = Admin, signatureStatus = NotSigned, padActive = False,
      fileFormat = ''png'',
      canvas = setupCanvas devicePixelRatio offsetWidth offsetHeight newCanvas,
      loading = []\<rparr>"

text \<open>
  \<open>handleResize\<close>: the data URL is taken first, then the canvas is set up again, then
  the image starts to load, if the data URL is one of an image. \<open>imageLoaded i\<close> is the
  \<open>onload\<close> handler of the \<open>i\<close>-th image that is still loading:
  \<open>ctx.drawImage(img, 0, 0)\<close>.
\<close>

definition handleResize :: "real \<Rightarrow> int \<Rightarrow> int \<Rightarrow> state \<Rightarrow> state" where
  "handleResize devicePixelRatio offsetWidth offsetHeight s =
     (let prevImage = toDataURL None (canvas s)
      in s\<lparr>canvas := setupCanvas devicePixelRatio offsetWidth offsetHeight (canvas s),
            loading := loading s @ (case decode prevImage of None \<Rightarrow> [] | Some img \<Rightarrow> [img])\<rparr>)"

definition imageLoaded :: "renderer \<Rightarrow> nat \<Rightarrow> state \<Rightarrow> state" where
  "imageLoaded R i s =
     (if i < length (loading s)
      then s\<lparr>canvas := drawImage R (loading s ! i) 0 0 (canvas s),
              loading := take i (loading s) @ drop (Suc i) (loading s)\<rparr>
      else s)"

text \<open>
  \<open>getCoordinates\<close>: \<open>e.touches[0]\<close> of an empty list is \<open>undefined\<close>, and reading its
  \<open>clientX\<close> throws a \<open>TypeError\<close>.
\<close>

fun getCoordinates :: "rect \<Rightarrow> pointer \<Rightarrow> error + point" where
  "getCoordinates r (TouchEvent []) = Inl TypeError"
| "getCoordinates r (TouchEvent (t # ts)) = Inr (clientX t - rect_left r, clientY t - rect_top r)"
| "getCoordinates r (MouseEvent x y) = Inr (x - rect_left r, y - rect_top r)"

definition canDraw :: "state \<Rightarrow> bool" where
  "canDraw s \<longleftrightarrow> currentUser s = Client \<and> padActive s"

text \<open>An exception of \<open>getCoordinates\<close> leaves the handler; the result is then the error.\<close>

definition startDrawing :: "rect \<Rightarrow> pointer \<Rightarrow> state \<Rightarrow> error + state" where
  "startDrawing r e s =
     (if \<not> canDraw s then Inr s
      else case getCoordinates r e of
             Inl err \<Rightarrow> Inl err
           | Inr p \<Rightarrow> Inr (s\<lparr>isDrawing := True, canvas := moveTo p (beginPath (canvas s))\<rparr>))"

definition draw :: "renderer \<Rightarrow> rect \<Rightarrow> pointer \<Rightarrow> state \<Rightarrow> error + state" where
  "draw R r e s =
     (if \<not> isDrawing s \<or> \<not> canDraw s then Inr s
      else case getCoordinates r e of
             Inl err \<Rightarrow> Inl err
           | Inr p \<Rightarrow> Inr (s\<lparr>canvas := stroke R (lineTo p (canvas s))\<rparr>))"

definition stopDrawing :: "state \<Rightarrow> state" where
  "stopDrawing s =
     (if \<not> isDrawing s then s
      else s\<lparr>isDrawing := False, canvas := closePath (canvas s)\<rparr>)"

definition clearCanvas :: "state \<Rightarrow> state" where
  "clearCanvas s =
     (let s1 = s\<lparr>canvas := clearRect 0 0 (of_int (width (canvas s))) (of_int (height (canvas s)))
                              (canvas s)\<rparr>
      in if signatureStatus s = Signed then s1\<lparr>signatureStatus := NotSigned\<rparr> else s1)"

text \<open>
  \<open>downloadSignature\<close> calls no state setter and no drawing method; it hands a link with
  the data URL and a file name to the browser. The link is added to the document and
  removed again. The result is the state afterwards and the link.
\<close>

record download =
  href :: dataURL
  filename :: string

definition downloadSignature :: "state \<Rightarrow> state \<times> download" where
  "downloadSignature s =
     (s, \<lparr>href = toDataURL (Some (''image/'' @ fileFormat s)) (canvas s),
          filename = ''signature.'' @ fileFormat s\<rparr>)"

definition requestSignature :: "state \<Rightarrow> state" where
  "requestSignature s =
     (if currentUser s \<noteq> Admin then s
      else (clearCanvas s)\<lparr>signatureStatus := Requested, padActive := True, currentUser := Client\<rparr>)"

definition completeSignature :: "state \<Rightarrow> state" where
  "completeSignature s =
     (if currentUser s \<noteq> Client then s
      else s\<lparr>signatureStatus := Signed, padActive := False, currentUser := Admin\<rparr>)"

definition toggleUser :: "state \<Rightarrow> state" where
  "toggleUser s = s\<lparr>currentUser := (if currentUser s = Admin then Client else Admin)\<rparr>"

subsection \<open>Events\<close>

text \<open>
  The events that reach the component, with what the handler reads from the environment:
  the bounding rectangle for the pointer events, the device pixel ratio and layout size
  for a resize. \<open>PenUp\<close> stands for \<open>mouseup\<close>, \<open>touchend\<close> and \<open>mouseleave\<close>.
\<close>

datatype event =
    PenDown rect pointer
  | PenMove rect pointer
  | PenUp
  | Clear
  | Export
  | RequestSignature
  | CompleteSignature
  | ToggleRole
  | Resize real int int
  | ImageLoaded nat

fun handle :: "renderer \<Rightarrow> event \<Rightarrow> state \<Rightarrow> error + state" where
  "handle R (PenDown r e) s = startDrawing r e s"
| "handle R (PenMove r e) s = draw R r e s"
| "handle R PenUp s = Inr (stopDrawing s)"
| "handle R Clear s = Inr (clearCanvas s)"
| "handle R Export s = Inr (fst (downloadSignature s))"
| "handle R RequestSignature s = Inr (requestSignature s)"
| "handle R CompleteSignature s = Inr (completeSignature s)"
| "handle R ToggleRole s = Inr (toggleUser s)"
| "handle R (Resize d w h) s = Inr (handleResize d w h s)"
| "handle R (ImageLoaded i) s = Inr (imageLoaded R i s)"

text \<open>A run of events stops at the first uncaught exception.\<close>

fun run :: "renderer \<Rightarrow> event list \<Rightarrow> state \<Rightarrow> error + state" where
  "run R [] s = Inr s"
| "run R (ev # evs) s = (case handle R ev s of Inl err \<Rightarrow> Inl err | Inr s' \<Rightarrow> run R evs s')"

subsection \<open>What the interface offers\<close>

text \<open>
  The conditions under which the JSX renders the two workflow buttons: the request button
  is shown to the admin and disabled once the status is signed; the complete button is
  shown to the client while the status is requested.
\<close>

definition requestEnabled :: "state \<Rightarrow> bool" where
  "requestEnabled s \<longleftrightarrow> currentUser s = Admin \<and> signatureStatus s \<noteq> Signed"

definition completeShown :: "state \<Rightarrow> bool" where
  "completeShown s \<longleftrightarrow> currentUser s = Client \<and> signatureStatus s = Requested"

text \<open>
  The complete button is the only caller of \<open>completeSignature\<close>. The action of
  completing, as the interface has it: a click on the button where it is rendered; where
  it is not, there is nothing to click and the state stays as it is.
\<close>

definition clickComplete :: "state \<Rightarrow> state" where
  "clickComplete s = (if completeShown s then completeSignature s else s)"

subsection \<open>Concrete surroundings for runs\<close>

definition atOrigin :: rect where
  "atOrigin = \<lparr>rect_left = 0, rect_top = 0\<rparr>"

text \<open>A state with given ink on its bitmap.\<close>

definition inked :: "pixel set \<Rightarrow> state \<Rightarrow> state" where
  "inked ps s = s\<lparr>canvas := (canvas s)\<lparr>ink := ps\<rparr>\<rparr>"

lemmas pad_defs =
  mount_def setupCanvas_def set_width_def set_height_def ctx_scale_def newCanvas_def
  requestSignature_def completeSignature_def toggleUser_def clearCanvas_def clearRect_def
  inRect_def startDrawing_def draw_def stopDrawing_def canDraw_def beginPath_def moveTo_def
  lineTo_def closePath_def stroke_def vertexRaster_def vertexPixels_def vertexPixel_def
  subpathSegments_def blockPixels_def footprint_def inBounds_def handleResize_def
  imageLoaded_def toDataURL_def bitmap_def drawImage_def downloadSignature_def encodable_def
  atOrigin_def Let_def

section \<open>Properties\<close>

subsection \<open>Facts about single handlers\<close>

text \<open>A touch event without any contact makes \<open>getCoordinates\<close> throw.\<close>

lemma getCoordinates_no_contact: "getCoordinates r (TouchEvent []) = Inl TypeError"
  by simp

lemma clearCanvas_fields:
  "signatureStatus (clearCanvas s) = (if signatureStatus s = Signed then NotSigned else signatureStatus s)"
  "currentUser (clearCanvas s) = currentUser s"
  "padActive (clearCanvas s) = padActive s"
  "isDrawing (clearCanvas s) = isDrawing s"
  "fileFormat (clearCanvas s) = fileFormat s"
  "loading (clearCanvas s) = loading s"
  by (simp_all add: clearCanvas_def Let_def)

text \<open>
  With a scale factor of at least 1 the rectangle that \<open>clearCanvas\<close> clears covers the
  bitmap, and no ink is left.
\<close>

lemma inRect_covers:
  assumes k: "1 \<le> k" and p: "0 \<le> fst p" "fst p < w" "0 \<le> snd p" "snd p < h"
  shows "inRect k 0 0 (of_int w) (of_int h) p"
proof -
  have w: "of_int (fst p) + 1 \<le> (of_int w :: real)"
    using p(2) by linarith
  have h: "of_int (snd p) + 1 \<le> (of_int h :: real)"
    using p(4) by linarith
  have nonneg: "(0::real) \<le> of_int w" "(0::real) \<le> of_int h"
    using p by linarith+
  have "(of_int w :: real) * 1 \<le> of_int w * k" "(of_int h :: real) * 1 \<le> of_int h * k"
    by (rule mult_left_mono [OF k nonneg(1)], rule mult_left_mono [OF k nonneg(2)])
  with w h have "of_int (fst p) + 1 \<le> (of_int w :: real) * k" "of_int (snd p) + 1 \<le> (of_int h :: real) * k"
    by linarith+
  with p(1) p(3) show ?thesis
    by (simp add: inRect_def)
qed

lemma clearCanvas_blank:
  assumes "1 \<le> transform (canvas s)" and "\<forall>p\<in>ink (canvas s). inBounds (canvas s) p"
  shows "ink (canvas (clearCanvas s)) = {}"
  using assms inRect_covers [of "transform (canvas s)" _ "width (canvas s)" "height (canvas s)"]
  by (auto simp: clearCanvas_def clearRect_def Let_def inBounds_def)

lemma requestSignature_fields:
  assumes "currentUser s = Admin"
  shows "signatureStatus (requestSignature s) = Requested"
    and "padActive (requestSignature s)"
    and "currentUser (requestSignature s) = Client"
    and "ink (canvas (requestSignature s)) = ink (canvas (clearCanvas s))"
  using assms by (simp_all add: requestSignature_def clearCanvas_def Let_def)

lemma requestSignature_client: "currentUser s = Client \<Longrightarrow> requestSignature s = s"
  by (simp add: requestSignature_def)

text \<open>
  The handlers of request, complete and request again, from any mounted state: nothing
  has been drawn, and the surface is blank. (\<open>requestSignature\<close> does not look at the
  status; the interface disables its button while the status is signed.)
\<close>

lemma workflow_cycle:
  "run R [RequestSignature, CompleteSignature, RequestSignature] (mount d w h) = Inr s \<Longrightarrow>
   signatureStatus s = Requested \<and> currentUser s = Client \<and> padActive s \<and> ink (canvas s) = {}"
  by (auto simp: pad_defs)

text \<open>
  Where the interface offers the two workflow buttons, the handlers do what the workflow
  table says.
\<close>

lemma complete_when_shown:
  "completeShown s \<Longrightarrow>
   completeSignature s = s\<lparr>signatureStatus := Signed, padActive := False, currentUser := Admin\<rparr>"
  by (simp add: completeShown_def completeSignature_def)

lemma handle_complete_shown:
  "completeShown s \<Longrightarrow> handle R CompleteSignature s = Inr (clickComplete s)"
  by (simp add: clickComplete_def)

text \<open>
  The handler by itself looks at the current user only. The interface does not call it
  for a client whose status is not requested.
\<close>

lemma completeSignature_handler:
  "(currentUser s = Client \<longrightarrow>
      completeSignature s = s\<lparr>signatureStatus := Signed, padActive := False, currentUser := Admin\<rparr>) \<and>
   (currentUser s = Admin \<longrightarrow> completeSignature s = s)"
  by (simp add: completeSignature_def)

lemma request_when_enabled:
  "requestEnabled s \<Longrightarrow>
   signatureStatus (requestSignature s) = Requested \<and> padActive (requestSignature s) \<and>
   currentUser (requestSignature s) = Client"
  by (simp add: requestEnabled_def requestSignature_fields)

subsection \<open>Facts about every event\<close>



lemma handle_padActive:
  assumes "handle R ev s = Inr s'" and "padActive s \<longrightarrow> signatureStatus s = Requested"
  shows "padActive s' \<longrightarrow> signatureStatus s' = Requested"
  using assms by (cases ev) (auto simp: pad_defs split: if_splits sum.splits)

lemma run_padActive:
  assumes "run R evs s = Inr s'" and "padActive s \<longrightarrow> signatureStatus s = Requested"
  shows "padActive s' \<longrightarrow> signatureStatus s' = Requested"
  using assms
proof (induction evs arbitrary: s)
  case Nil
  then show ?case by simp
next
  case (Cons ev evs)
  from Cons.prems(1) obtain s1 where s1: "handle R ev s = Inr s1" "run R evs s1 = Inr s'"
    by (auto split: sum.splits)
  from handle_padActive [OF s1(1) Cons.prems(2)] Cons.IH [OF s1(2)] show ?case
    by blast
qed

text \<open>Everything that is painted is clipped, so the ink stays within the bitmap.\<close>

lemma clipped_ops:
  "clipped c \<Longrightarrow> clipped (beginPath c)"
  "clipped c \<Longrightarrow> clipped (moveTo p c)"
  "clipped c \<Longrightarrow> clipped (lineTo p c)"
  "clipped c \<Longrightarrow> clipped (closePath c)"
  "clipped c \<Longrightarrow> clipped (stroke R c)"
  "clipped c \<Longrightarrow> clipped (clearRect x y w h c)"
  "clipped c \<Longrightarrow> clipped (drawImage R img dx dy c)"
  "clipped (setupCanvas d ow oh c)"
  by (auto simp: clipped_def inBounds_def beginPath_def moveTo_def lineTo_def closePath_def
      stroke_def clearRect_def drawImage_def setupCanvas_def set_width_def set_height_def
      ctx_scale_def Let_def)

lemma handle_clipped:
  assumes "handle R ev s = Inr s'" and "clipped (canvas s)"
  shows "clipped (canvas s')"
proof (cases ev)
  case (PenDown r e)
  with assms show ?thesis
    by (auto simp: startDrawing_def clipped_ops split: if_splits sum.splits)
next
  case (PenMove r e)
  with assms show ?thesis
    by (auto simp: draw_def clipped_ops split: if_splits sum.splits)
next
  case PenUp
  with assms show ?thesis
    by (auto simp: stopDrawing_def clipped_ops)
next
  case Clear
  with assms show ?thesis
    by (auto simp: clearCanvas_def Let_def clipped_ops)
next
  case Export
  with assms show ?thesis
    by (auto simp: downloadSignature_def)
next
  case RequestSignature
  with assms show ?thesis
    by (auto simp: requestSignature_def clearCanvas_def Let_def clipped_ops)
next
  case CompleteSignature
  with assms show ?thesis
    by (auto simp: completeSignature_def)
next
  case ToggleRole
  with assms show ?thesis
    by (auto simp: toggleUser_def)
next
  case (Resize d w h)
  with assms show ?thesis
    by (auto simp: handleResize_def Let_def clipped_ops)
next
  case (ImageLoaded i)
  with assms show ?thesis
    by (auto simp: imageLoaded_def clipped_ops split: if_splits)
qed

lemma run_clipped:
  assumes "run R evs s = Inr s'" and "clipped (canvas s)"
  shows "clipped (canvas s')"
  using assms
proof (induction evs arbitrary: s)
  case Nil
  then show ?case by simp
next
  case (Cons ev evs)
  from Cons.prems(1) obtain s1 where s1: "handle R ev s = Inr s1" "run R evs s1 = Inr s'"
    by (auto split: sum.splits)
  from Cons.IH [OF s1(2) handle_clipped [OF s1(1) Cons.prems(2)]] show ?case .
qed

lemma mount_clipped: "clipped (canvas (mount d w h))"
  by (simp add: mount_def clipped_ops)

text \<open>
  So in every state that a run reaches with a scale factor of at least 1, \<open>clearCanvas\<close>
  leaves a blank bitmap.
\<close>

lemma clearCanvas_blank_reached:
  assumes "run R evs (mount d w h) = Inr s" and "1 \<le> transform (canvas s)"
  shows "ink (canvas (clearCanvas s)) = {}"
  using clearCanvas_blank [OF assms(2)] run_clipped [OF assms(1) mount_clipped]
  by (simp add: clipped_def)

subsection \<open>Facts about a resize\<close>

lemma handleResize_capture:
  "loading (handleResize d w h s) =
     loading s @ (if 0 < width (canvas s) \<and> 0 < height (canvas s) then [bitmap (canvas s)] else [])"
  "ink (canvas (handleResize d w h s)) = {}"
  "transform (canvas (handleResize 1 w h s)) = 1"
  "width (canvas (handleResize 1 w h s)) = w"
  "height (canvas (handleResize 1 w h s)) = h"
  by (auto simp: handleResize_def toDataURL_def setupCanvas_def set_width_def set_height_def
      ctx_scale_def Let_def)

text \<open>
  An image that is loading leaves the list only through its own load event: every other
  event keeps the list, and a resize adds to it.
\<close>

lemma loading_kept:
  assumes "handle R ev s = Inr s'" and "\<forall>i. ev \<noteq> ImageLoaded i"
  shows "\<exists>imgs. loading s' = loading s @ imgs"
  using assms
  by (cases ev)
    (auto simp: startDrawing_def draw_def stopDrawing_def clearCanvas_def downloadSignature_def
      requestSignature_def completeSignature_def toggleUser_def handleResize_def Let_def
      split: if_splits sum.splits option.splits)

section \<open>The claims\<close>

text \<open>
  C10. The coordinate mapper returns the raw position minus the corner of the bounding
  rectangle, for a mouse event and for a touch event with at least one contact; of
  several contacts only the first is read; nothing is clamped and no error is raised.
\<close>

theorem getCoordinates_maps:
  "getCoordinates r (MouseEvent x y) = Inr (x - rect_left r, y - rect_top r) \<and>
   getCoordinates r (TouchEvent (t # ts)) = Inr (clientX t - rect_left r, clientY t - rect_top r) \<and>
   getCoordinates r (TouchEvent (t # ts)) = getCoordinates r (TouchEvent [t])"
  by simp

text \<open>
  C1, as amended. While \<open>canDraw\<close> is false, that is, unless the current user is the
  client and the pad is active, pen-down and pointer-move change nothing at all: the
  bitmap, the path and \<open>isDrawing\<close> are what they were. So a segment is only painted
  when the current user is the client and the pad is active.
\<close>

theorem draw_gated:
  assumes "\<not> canDraw s"
  shows "startDrawing r e s = Inr s \<and> draw R r e s = Inr s"
  using assms by (simp add: startDrawing_def draw_def)

theorem draw_gated_witness:
  "\<not> canDraw (mount 1 4 4) \<and>
   startDrawing atOrigin (MouseEvent 1 1) (mount 1 4 4) = Inr (mount 1 4 4) \<and>
   draw vertexRaster atOrigin (MouseEvent 1 1) (mount 1 4 4) = Inr (mount 1 4 4)"
proof -
  have h: "\<not> canDraw (mount 1 4 4)"
    by (simp add: canDraw_def mount_def)
  from h draw_gated [OF h] show ?thesis
    by simp
qed

text \<open>
  C1 as stated fails in its last part: the client puts the pen down, the role is toggled
  while the stroke is open, and a further pen-down, with \<open>canDraw\<close> false, leaves
  \<open>isDrawing\<close> true.
\<close>

theorem penDown_keeps_open_stroke:
  "\<not> canDraw (projr (run vertexRaster
       [RequestSignature, PenDown atOrigin (MouseEvent 1 1), ToggleRole] (mount 1 4 4))) \<and>
   isDrawing (projr (startDrawing atOrigin (MouseEvent 2 2) (projr (run vertexRaster
       [RequestSignature, PenDown atOrigin (MouseEvent 1 1), ToggleRole] (mount 1 4 4)))))"
  by (simp add: pad_defs)



text \<open>
  C3 at a device pixel ratio of one half. The canvas is laid out 200 by 100, so the bitmap
  is 100 by 50 and the scale factor one half. The client draws from (160, 60) to (162, 60),
  which inks the pixel (80, 30), and with the renderer for runs (81, 30); the role is toggled, and the admin, whose
  request button is enabled, requests again. The status, the user and the pad are as C3
  says, but the surface is not blank: \<open>clearRect(0, 0, 100, 50)\<close> under the scale
  covers the device pixels up to (50, 25) only.
\<close>

theorem requestSignature_leaves_ink:
  "requestEnabled (projr (run vertexRaster
     [RequestSignature, PenDown atOrigin (MouseEvent 160 60), PenMove atOrigin (MouseEvent 162 60),
      PenUp, ToggleRole] (mount (1/2) 200 100))) \<and>
   run vertexRaster
     [RequestSignature, PenDown atOrigin (MouseEvent 160 60), PenMove atOrigin (MouseEvent 162 60),
      PenUp, ToggleRole, RequestSignature] (mount (1/2) 200 100) =
   Inr \<lparr>isDrawing = False, currentUser = Client, signatureStatus = Requested, padActive = True,
        fileFormat = ''png'',
        canvas = \<lparr>width = 100, height = 50, transform = 1/2,
                  path = [([(160, 60), (162, 60)], True), ([(160, 60)], False)],
                  ink = {(80, 30), (81, 30)}\<rparr>,
        loading = []\<rparr>"
  by (auto simp: pad_defs requestEnabled_def)

text \<open>
  C4, as amended. \<open>handleResize\<close> captures the bitmap, if it has pixels, before it sets
  the canvas up again, which blanks it. When the image has loaded it is painted at (0, 0)
  at its natural size, not stretched: with a device pixel ratio of 1, a captured ink pixel
  is inked again, at the same pixel, if it lies within the new bitmap, and is lost if it
  does not.
\<close>

theorem resize_redraw_unscaled:
  "loading (handleResize d w h s) =
     loading s @ (if 0 < width (canvas s) \<and> 0 < height (canvas s) then [bitmap (canvas s)] else []) \<and>
   ink (canvas (handleResize d w h s)) = {} \<and>
   (d = 1 \<longrightarrow>
      ink (canvas (imageLoaded R (length (loading s)) (handleResize d w h s))) =
        {p \<in> ink (canvas s). inBounds (canvas s) p \<and>
            0 \<le> fst p \<and> fst p < w \<and> 0 \<le> snd p \<and> snd p < h})"
proof -
  have "ink (canvas (imageLoaded R (length (loading s)) (handleResize 1 w h s))) =
        {p \<in> ink (canvas s). inBounds (canvas s) p \<and>
            0 \<le> fst p \<and> fst p < w \<and> 0 \<le> snd p \<and> snd p < h}"
  proof (cases "0 < width (canvas s) \<and> 0 < height (canvas s)")
    case True
    then show ?thesis
      by (auto simp: imageLoaded_def drawImage_def handleResize_capture bitmap_def inBounds_def
          nth_append)
  next
    case False
    then show ?thesis
      by (auto simp: imageLoaded_def handleResize_capture inBounds_def)
  qed
  then show ?thesis
    by (simp add: handleResize_capture)
qed

theorem resize_redraw_unscaled_witness:
  "ink (canvas (imageLoaded vertexRaster 0
     (handleResize 1 2 2 (inked {(1, 1), (3, 0)} (mount 1 4 4))))) = {(1, 1)}"
proof -
  let ?s = "inked {(1, 1), (3, 0)} (mount 1 4 4)"
  have "ink (canvas (imageLoaded vertexRaster (length (loading ?s)) (handleResize 1 2 2 ?s))) =
        {p \<in> ink (canvas ?s). inBounds (canvas ?s) p \<and>
            0 \<le> fst p \<and> fst p < 2 \<and> 0 \<le> snd p \<and> snd p < 2}"
    using resize_redraw_unscaled [of 1 2 2 ?s vertexRaster] by blast
  moreover have "loading ?s = []"
    by (simp add: inked_def mount_def)
  moreover have "{p \<in> ink (canvas ?s). inBounds (canvas ?s) p \<and>
            0 \<le> fst p \<and> fst p < 2 \<and> 0 \<le> snd p \<and> snd p < 2} = {(1, 1)}"
    by (auto simp: inked_def mount_def inBounds_def setupCanvas_def set_width_def set_height_def
        ctx_scale_def newCanvas_def Let_def)
  ultimately show ?thesis
    by simp
qed

text \<open>
  C4 as stated fails: on an 8 by 8 canvas at ratio 1 the client draws from (6.5, 1.5) to
  (6.5, 2.5), at about four fifths of the width, which inks the pixel (6, 1) among others;
  the canvas is resized to 4 by 4 and the image loads. The image is painted unstretched,
  all of its ink falls outside the bitmap, and the bitmap is blank.
\<close>

theorem resize_loses_ink:
  "(6, 1) \<in> ink (canvas (projr (run vertexRaster
       [RequestSignature, PenDown atOrigin (MouseEvent 6.5 1.5), PenMove atOrigin (MouseEvent 6.5 2.5), PenUp]
       (mount 1 8 8)))) \<and>
   ink (canvas (projr (run vertexRaster
       [RequestSignature, PenDown atOrigin (MouseEvent 6.5 1.5), PenMove atOrigin (MouseEvent 6.5 2.5), PenUp,
        Resize 1 4 4, ImageLoaded 0]
       (mount 1 8 8)))) = {} \<and>
   loading (projr (run vertexRaster
       [RequestSignature, PenDown atOrigin (MouseEvent 6.5 1.5), PenMove atOrigin (MouseEvent 6.5 2.5), PenUp,
        Resize 1 4 4, ImageLoaded 0]
       (mount 1 8 8))) = []"
  by (auto simp: pad_defs)

text \<open>
  C5, as amended. There is no generation counter. A resize keeps the images that are
  still loading and adds its own; an image that has loaded is painted onto the bitmap as
  it then is, whatever has happened since its resize, and only then leaves the list.
  Painting only adds ink, so what a stroke has inked stays inked; at scale 1 what is added
  is the ink of the image that lies within the bitmap.
\<close>

theorem redraw_never_discarded:
  assumes "i < length (loading s)"
  shows "ink (canvas s) \<subseteq> ink (canvas (imageLoaded R i s)) \<and>
         (transform (canvas s) = 1 \<longrightarrow>
            ink (canvas (imageLoaded R i s)) =
              ink (canvas s) \<union> {p \<in> img_ink (loading s ! i). inBounds (canvas s) p}) \<and>
         loading (imageLoaded R i s) = take i (loading s) @ drop (Suc i) (loading s) \<and>
         loading (handleResize d w h s) =
           loading s @ (if 0 < width (canvas s) \<and> 0 < height (canvas s)
                        then [bitmap (canvas s)] else [])"
  using assms by (auto simp: imageLoaded_def drawImage_def handleResize_capture)

theorem redraw_never_discarded_witness:
  "ink (canvas (imageLoaded vertexRaster 0
     (handleResize 1 9 9 (handleResize 1 10 10 (inked {(1, 1), (2, 1)} (mount 1 8 8)))))) =
   {(1, 1), (2, 1)}"
proof -
  let ?s = "handleResize 1 9 9 (handleResize 1 10 10 (inked {(1, 1), (2, 1)} (mount 1 8 8)))"
  have l: "loading ?s =
           [\<lparr>img_width = 8, img_height = 8, img_ink = {(1, 1), (2, 1)}\<rparr>,
            \<lparr>img_width = 10, img_height = 10, img_ink = {}\<rparr>]"
    by (auto simp: handleResize_def toDataURL_def bitmap_def inked_def mount_def setupCanvas_def
        set_width_def set_height_def ctx_scale_def newCanvas_def inBounds_def Let_def)
  have i: "0 < length (loading ?s)"
    by (simp add: l)
  have t: "transform (canvas ?s) = 1"
    by (simp add: handleResize_capture)
  have "ink (canvas (imageLoaded vertexRaster 0 ?s)) =
        ink (canvas ?s) \<union> {p \<in> img_ink (loading ?s ! 0). inBounds (canvas ?s) p}"
    using redraw_never_discarded [OF i, of vertexRaster] t by blast
  moreover have "ink (canvas ?s) = {}"
    by (simp add: handleResize_capture)
  moreover have img: "img_ink (loading ?s ! 0) = {(1, 1), (2, 1)}"
    by (simp only: l) simp
  have wh: "width (canvas ?s) = 9" "height (canvas ?s) = 9"
    by (simp_all add: handleResize_capture)
  have "{p \<in> img_ink (loading ?s ! 0). inBounds (canvas ?s) p} = {(1, 1), (2, 1)}"
    unfolding img inBounds_def wh by auto
  ultimately show ?thesis
    by simp
qed

text \<open>
  C5 as stated fails: on an 8 by 8 canvas at ratio 1 the client draws from (1.5, 1.5) to
  (2.5, 1.5); a resize starts, and a second one to another size before the first image has
  loaded; the client draws from (5.5, 5.5) to (6.5, 5.5); then the first image loads. It
  is not discarded: the pixel (1, 1), blank before the load, is inked after it, beside
  the pixel (5, 5) of the stroke.
\<close>

theorem stale_redraw_painted:
  "(1, 1) \<notin> ink (canvas (projr (run vertexRaster
       [RequestSignature, PenDown atOrigin (MouseEvent 1.5 1.5), PenMove atOrigin (MouseEvent 2.5 1.5), PenUp,
        Resize 1 10 10, Resize 1 9 9,
        PenDown atOrigin (MouseEvent 5.5 5.5), PenMove atOrigin (MouseEvent 6.5 5.5), PenUp]
       (mount 1 8 8)))) \<and>
   (5, 5) \<in> ink (canvas (projr (run vertexRaster
       [RequestSignature, PenDown atOrigin (MouseEvent 1.5 1.5), PenMove atOrigin (MouseEvent 2.5 1.5), PenUp,
        Resize 1 10 10, Resize 1 9 9,
        PenDown atOrigin (MouseEvent 5.5 5.5), PenMove atOrigin (MouseEvent 6.5 5.5), PenUp]
       (mount 1 8 8)))) \<and>
   (1, 1) \<in> ink (canvas (projr (run vertexRaster
       [RequestSignature, PenDown atOrigin (MouseEvent 1.5 1.5), PenMove atOrigin (MouseEvent 2.5 1.5), PenUp,
        Resize 1 10 10, Resize 1 9 9,
        PenDown atOrigin (MouseEvent 5.5 5.5), PenMove atOrigin (MouseEvent 6.5 5.5), PenUp,
        ImageLoaded 0]
       (mount 1 8 8)))) \<and>
   (5, 5) \<in> ink (canvas (projr (run vertexRaster
       [RequestSignature, PenDown atOrigin (MouseEvent 1.5 1.5), PenMove atOrigin (MouseEvent 2.5 1.5), PenUp,
        Resize 1 10 10, Resize 1 9 9,
        PenDown atOrigin (MouseEvent 5.5 5.5), PenMove atOrigin (MouseEvent 6.5 5.5), PenUp,
        ImageLoaded 0]
       (mount 1 8 8))))"
  by (auto simp: pad_defs)

text \<open>
  C6 at a device pixel ratio of one half, with the layout and the stroke of C3 above: after
  \<open>Clear\<close> the two pixels are still inked.
\<close>

theorem clearCanvas_leaves_ink:
  "ink (canvas (projr (run vertexRaster
     [RequestSignature, PenDown atOrigin (MouseEvent 160 60), PenMove atOrigin (MouseEvent 162 60),
      PenUp, Clear] (mount (1/2) 200 100)))) = {(80, 30), (81, 30)}"
  by (auto simp: pad_defs)



text \<open>
  C8. In every state that a run of events reaches from the mounted state (the five
  workflow actions, and pen, resize and image events as well), an active pad implies the
  status requested. Toggling the role changes the current user and nothing else.
\<close>

theorem padActive_only_while_requested:
  assumes "run R evs (mount d w h) = Inr s"
  shows "(padActive s \<longrightarrow> signatureStatus s = Requested) \<and>
         toggleUser t = t\<lparr>currentUser := (if currentUser t = Admin then Client else Admin)\<rparr> \<and>
         padActive (toggleUser t) = padActive t \<and>
         signatureStatus (toggleUser t) = signatureStatus t"
proof -
  have "padActive (mount d w h) \<longrightarrow> signatureStatus (mount d w h) = Requested"
    by (simp add: mount_def)
  from run_padActive [OF assms this] show ?thesis
    by (simp add: toggleUser_def)
qed

theorem padActive_only_while_requested_witness:
  "run vertexRaster [RequestSignature, ToggleRole] (mount 1 4 4) =
     Inr (toggleUser (requestSignature (mount 1 4 4))) \<and>
   padActive (toggleUser (requestSignature (mount 1 4 4))) \<and>
   signatureStatus (toggleUser (requestSignature (mount 1 4 4))) = Requested"
proof -
  have h: "run vertexRaster [RequestSignature, ToggleRole] (mount 1 4 4) =
           Inr (toggleUser (requestSignature (mount 1 4 4)))"
    by simp
  have "padActive (toggleUser (requestSignature (mount 1 4 4)))"
    by (simp add: toggleUser_def requestSignature_def clearCanvas_def mount_def Let_def)
  with h padActive_only_while_requested [OF h, of "mount 1 4 4"] show ?thesis
    by blast
qed

text \<open>
  C9. The export leaves the state as it is, in every state and whatever the status, and a
  second export right after the first hands out the same link: the same encoded bytes
  under the same file name.
\<close>

theorem export_idempotent:
  "fst (downloadSignature s) = s \<and>
   snd (downloadSignature (fst (downloadSignature s))) = snd (downloadSignature s) \<and>
   handle R Export s = Inr s"
  by (simp add: downloadSignature_def)



end
